theory Spec2Isabelle
  imports Complex_Main
begin

section \<open>Data model\<close>

text \<open>
  The development follows \<^verbatim>\<open>packages/opentelemetry-sdk-trace-web/src/utils.ts\<close>.

  A JavaScript \<^verbatim>\<open>number\<close> is idealised as a real: the functions below only compare,
  subtract and test numbers against zero, and the browser never reports \<^verbatim>\<open>NaN\<close> as a
  timestamp. A JavaScript string is the list of its code units, each below 256 here, and
  \<^verbatim>\<open>.length\<close> is the length of that list.
\<close>

type_synonym number = real

text \<open>\<^verbatim>\<open>api.HrTime\<close> is the pair \<^verbatim>\<open>[seconds, nanoseconds]\<close>.\<close>

type_synonym HrTime = "number \<times> number"

text \<open>
  The fields of a browser \<^verbatim>\<open>PerformanceResourceTiming\<close> object that the resource matcher
  reads. JavaScript objects have an identity, and the \<^verbatim>\<open>WeakSet\<close> of ignored resources
  tests membership by identity, not by field values: \<open>oid\<close> is that identity.
\<close>

record PerformanceResourceTiming =
  oid :: nat
  name :: string
  initiatorType :: string
  fetchStart :: number
  responseEnd :: number

type_synonym WeakSet = "nat set"

definition has :: "WeakSet \<Rightarrow> PerformanceResourceTiming \<Rightarrow> bool" where
  "has ws resource = (oid resource \<in> ws)"

text \<open>\<^verbatim>\<open>PerformanceResourceTimingInfo\<close>: both fields are optional, \<open>None\<close> is \<^verbatim>\<open>undefined\<close>.\<close>

record PerformanceResourceTimingInfo =
  corsPreFlightRequest :: "PerformanceResourceTiming option"
  mainRequest :: "PerformanceResourceTiming option"

text \<open>The \<^verbatim>\<open>URLLike\<close> fields that are read; \<^verbatim>\<open>toString()\<close> of a URL is its \<^verbatim>\<open>href\<close>.\<close>

record URLLike =
  href :: string
  origin :: string

definition toString :: "URLLike \<Rightarrow> string" where
  "toString u = href u"

datatype error = TypeError

text \<open>
  What the functions take from outside this file. \<open>URL_defined\<close> is
  \<^verbatim>\<open>typeof URL === 'function'\<close>; \<open>new_URL\<close> is the \<^verbatim>\<open>URL\<close> constructor applied to a string and
  the document's base, which throws a \<^verbatim>\<open>TypeError\<close> (\<open>None\<close>) on a string it cannot parse;
  \<open>anchor\<close> is the anchor element after \<^verbatim>\<open>element.href = url\<close>; \<open>location_origin\<close> is
  \<^verbatim>\<open>location.origin\<close>, \<open>None\<close> where \<^verbatim>\<open>location\<close> is undefined. \<open>hrTimeToNanoseconds\<close> and
  \<open>timeInputToHrTime\<close> are imported from \<^verbatim>\<open>@opentelemetry/core\<close>; they are parameters here.
\<close>

record env =
  URL_defined :: bool
  new_URL :: "string \<Rightarrow> URLLike option"
  anchor :: "string \<Rightarrow> URLLike"
  location_origin :: "string option"
  hrTimeToNanoseconds :: "HrTime \<Rightarrow> number"
  timeInputToHrTime :: "number \<Rightarrow> HrTime"

section \<open>The resource matcher\<close>

definition parseUrl :: "env \<Rightarrow> string \<Rightarrow> error + URLLike" where
  "parseUrl e url =
     (if URL_defined e
      then (case new_URL e url of None \<Rightarrow> Inl TypeError | Some u \<Rightarrow> Inr u)
      else Inr (anchor e url))"

definition getOrigin :: "env \<Rightarrow> string option" where
  "getOrigin e = location_origin e"

text \<open>
  \<^verbatim>\<open>String.prototype.toLowerCase\<close>. A character of a string here is a code unit below 256
  (Basic Latin and Latin-1). Among these the letters that have a lower-case form are
  \<^verbatim>\<open>A\<close> to \<^verbatim>\<open>Z\<close> and the code units \<^verbatim>\<open>C0\<close> to \<^verbatim>\<open>DE\<close> without \<^verbatim>\<open>D7\<close> (the multiplication
  sign); the lower-case form is 32 code units higher. Every other character is kept, and
  no rule of the conversion depends on the neighbours of such a character.
\<close>

definition upper_letters :: string where
  "upper_letters =
     ''ABCDEFGHIJKLMNOPQRSTUVWXYZ'' @
     [CHR 0xC0, CHR 0xC1, CHR 0xC2, CHR 0xC3, CHR 0xC4, CHR 0xC5, CHR 0xC6, CHR 0xC7,
      CHR 0xC8, CHR 0xC9, CHR 0xCA, CHR 0xCB, CHR 0xCC, CHR 0xCD, CHR 0xCE, CHR 0xCF,
      CHR 0xD0, CHR 0xD1, CHR 0xD2, CHR 0xD3, CHR 0xD4, CHR 0xD5, CHR 0xD6, CHR 0xD8,
      CHR 0xD9, CHR 0xDA, CHR 0xDB, CHR 0xDC, CHR 0xDD, CHR 0xDE]"

definition lower_letters :: string where
  "lower_letters =
     ''abcdefghijklmnopqrstuvwxyz'' @
     [CHR 0xE0, CHR 0xE1, CHR 0xE2, CHR 0xE3, CHR 0xE4, CHR 0xE5, CHR 0xE6, CHR 0xE7,
      CHR 0xE8, CHR 0xE9, CHR 0xEA, CHR 0xEB, CHR 0xEC, CHR 0xED, CHR 0xEE, CHR 0xEF,
      CHR 0xF0, CHR 0xF1, CHR 0xF2, CHR 0xF3, CHR 0xF4, CHR 0xF5, CHR 0xF6, CHR 0xF8,
      CHR 0xF9, CHR 0xFA, CHR 0xFB, CHR 0xFC, CHR 0xFD, CHR 0xFE]"

definition lower_char :: "char \<Rightarrow> char" where
  "lower_char c =
     (case map_of (zip upper_letters lower_letters) c of None \<Rightarrow> c | Some l \<Rightarrow> l)"

definition toLowerCase :: "string \<Rightarrow> string" where
  "toLowerCase s = map lower_char s"

text \<open>\<^verbatim>\<open>initiatorType || 'xmlhttprequest'\<close>: \<^verbatim>\<open>undefined\<close> and the empty string are falsy.\<close>

definition initiatorType_or_default :: "string option \<Rightarrow> string" where
  "initiatorType_or_default it =
     (case it of None \<Rightarrow> ''xmlhttprequest''
      | Some s \<Rightarrow> if s = [] then ''xmlhttprequest'' else s)"

text \<open>
  \<^verbatim>\<open>filteredResources.slice().sort(...)\<close> with a comparator that orders by \<^verbatim>\<open>fetchStart\<close>:
  a new array, sorted stably, as \<open>sort_key\<close> does.
\<close>

definition sortResources :: "PerformanceResourceTiming list \<Rightarrow> PerformanceResourceTiming list" where
  "sortResources filteredResources = sort_key fetchStart filteredResources"

definition filterResourcesForSpan ::
  "env \<Rightarrow> string \<Rightarrow> HrTime \<Rightarrow> HrTime \<Rightarrow> PerformanceResourceTiming list \<Rightarrow> WeakSet \<Rightarrow>
     string option \<Rightarrow> PerformanceResourceTiming list" where
  "filterResourcesForSpan e spanUrl startTimeHR endTimeHR resources ignoredResources it =
     (let startTime = hrTimeToNanoseconds e startTimeHR;
          endTime = hrTimeToNanoseconds e endTimeHR;
          filteredResources =
            filter (\<lambda>resource.
              let resourceStartTime = hrTimeToNanoseconds e (timeInputToHrTime e (fetchStart resource));
                  resourceEndTime = hrTimeToNanoseconds e (timeInputToHrTime e (responseEnd resource))
              in toLowerCase (initiatorType resource) = initiatorType_or_default it \<and>
                 name resource = spanUrl \<and>
                 resourceStartTime \<ge> startTime \<and>
                 resourceEndTime \<le> endTime) resources
      in if length filteredResources > 0
         then filter (\<lambda>resource. \<not> has ignoredResources resource) filteredResources
         else filteredResources)"

text \<open>
  The loop of \<^verbatim>\<open>findMainRequest\<close> over \<^verbatim>\<open>resources[i]\<close>, \<^verbatim>\<open>i = 1 .. length - 1\<close>, with the
  loop state \<^verbatim>\<open>mainRequest\<close>, \<^verbatim>\<open>bestGap\<close>. \<^verbatim>\<open>!bestGap\<close> holds when \<^verbatim>\<open>bestGap\<close> is
  \<^verbatim>\<open>undefined\<close> and also when it is the number 0.
\<close>

definition falsy :: "number option \<Rightarrow> bool" where
  "falsy g = (case g of None \<Rightarrow> True | Some x \<Rightarrow> x = 0)"

fun findMainRequest_loop ::
  "env \<Rightarrow> number \<Rightarrow> number \<Rightarrow> PerformanceResourceTiming list \<Rightarrow>
     PerformanceResourceTiming option \<Rightarrow> number option \<Rightarrow> PerformanceResourceTiming option" where
  "findMainRequest_loop e spanEndTime minTime [] mainReq bestGap = mainReq"
| "findMainRequest_loop e spanEndTime minTime (resource # rest) mainReq bestGap =
     (let resourceStartTime = hrTimeToNanoseconds e (timeInputToHrTime e (fetchStart resource));
          resourceEndTime = hrTimeToNanoseconds e (timeInputToHrTime e (responseEnd resource));
          currentGap = spanEndTime - resourceEndTime
      in if resourceStartTime \<ge> minTime \<and>
            (falsy bestGap \<or> (case bestGap of None \<Rightarrow> False | Some g \<Rightarrow> currentGap < g))
         then findMainRequest_loop e spanEndTime minTime rest (Some resource) (Some currentGap)
         else findMainRequest_loop e spanEndTime minTime rest mainReq bestGap)"

text \<open>\<^verbatim>\<open>resources[1]\<close> is \<^verbatim>\<open>undefined\<close> on an array shorter than two.\<close>

definition findMainRequest ::
  "env \<Rightarrow> PerformanceResourceTiming list \<Rightarrow> number \<Rightarrow> HrTime \<Rightarrow> PerformanceResourceTiming option" where
  "findMainRequest e resources corsPreFlightRequestEndTime spanEndTimeHR =
     (let spanEndTime = hrTimeToNanoseconds e spanEndTimeHR;
          minTime = hrTimeToNanoseconds e (timeInputToHrTime e corsPreFlightRequestEndTime)
      in findMainRequest_loop e spanEndTime minTime (drop 1 resources)
           (if length resources > 1 then Some (resources ! 1) else None) None)"

text \<open>
  The two tests of the loop on one resource: whether it starts at or after \<open>minTime\<close>, and
  its \<^verbatim>\<open>currentGap\<close>.
\<close>

definition candidate :: "env \<Rightarrow> number \<Rightarrow> PerformanceResourceTiming \<Rightarrow> bool" where
  "candidate e minTime resource =
     (hrTimeToNanoseconds e (timeInputToHrTime e (fetchStart resource)) \<ge> minTime)"

definition gap :: "env \<Rightarrow> number \<Rightarrow> PerformanceResourceTiming \<Rightarrow> number" where
  "gap e spanEndTime resource =
     spanEndTime - hrTimeToNanoseconds e (timeInputToHrTime e (responseEnd resource))"

text \<open>
  The default of \<^verbatim>\<open>ignoredResources\<close> is a new, empty \<^verbatim>\<open>WeakSet\<close>: the set \<open>{}\<close>.
\<close>

definition getResource ::
  "env \<Rightarrow> string \<Rightarrow> HrTime \<Rightarrow> HrTime \<Rightarrow> PerformanceResourceTiming list \<Rightarrow> WeakSet \<Rightarrow>
     string option \<Rightarrow> error + PerformanceResourceTimingInfo" where
  "getResource e spanUrl0 startTimeHR endTimeHR resources ignoredResources it =
     (case parseUrl e spanUrl0 of
        Inl err \<Rightarrow> Inl err
      | Inr parsedSpanUrl \<Rightarrow>
          (let spanUrl = toString parsedSpanUrl;
               filteredResources =
                 filterResourcesForSpan e spanUrl startTimeHR endTimeHR resources ignoredResources it
           in if length filteredResources = 0
              then Inr \<lparr>corsPreFlightRequest = None, mainRequest = None\<rparr>
              else if length filteredResources = 1
              then Inr \<lparr>corsPreFlightRequest = None, mainRequest = Some (filteredResources ! 0)\<rparr>
              else
                (let sorted = sortResources filteredResources
                 in if Some (origin parsedSpanUrl) \<noteq> getOrigin e \<and> length sorted > 1
                    then (case sorted of
                            [] \<Rightarrow> Inl TypeError
                          | cors # _ \<Rightarrow>
                              (case findMainRequest e sorted (responseEnd cors) endTimeHR of
                                 None \<Rightarrow> Inl TypeError
                               | Some main \<Rightarrow>
                                   if fetchStart main < responseEnd cors
                                   then Inr \<lparr>corsPreFlightRequest = None, mainRequest = Some cors\<rparr>
                                   else Inr \<lparr>corsPreFlightRequest = Some cors,
                                              mainRequest = Some main\<rparr>))
                    else Inr \<lparr>corsPreFlightRequest = None,
                               mainRequest = Some (filteredResources ! 0)\<rparr>)))"

section \<open>The span enricher\<close>

text \<open>
  A JavaScript value read from a performance entry. \<open>Obj\<close> carries an object's identity,
  so that \<^verbatim>\<open>!==\<close> is inequality of \<open>jsval\<close>.
\<close>

datatype jsval = Undefined | Num number | Str string | Obj nat

text \<open>
  \<^verbatim>\<open>PerformanceEntries\<close> as an object: a key that is not \<^verbatim>\<open>in\<close> the object maps to \<open>None\<close>, and
  reading it gives \<^verbatim>\<open>undefined\<close>.
\<close>

type_synonym PerformanceEntries = "string \<Rightarrow> jsval option"

definition hasKey :: "PerformanceEntries \<Rightarrow> string \<Rightarrow> bool" where
  "hasKey obj key = (obj key \<noteq> None)"

definition get :: "PerformanceEntries \<Rightarrow> string \<Rightarrow> jsval" where
  "get obj key = (case obj key of None \<Rightarrow> Undefined | Some v \<Rightarrow> v)"

text \<open>
  Modelled from the spec: the enum \<^verbatim>\<open>PerformanceTimingNames\<close> (imported as \<^verbatim>\<open>PTN\<close> from
  \<^verbatim>\<open>./enums/PerformanceTimingNames\<close>) is not among the source files. The spec lists the named
  fields of a performance entry: fetch-start, DNS-lookup start and end, connect start and end,
  secure-connection start, request-start, response-start, response-end, and the encoded and
  decoded body sizes. Each member is the name of the \<^verbatim>\<open>PerformanceResourceTiming\<close> field it
  indexes.
\<close>

definition FETCH_START :: string where "FETCH_START = ''fetchStart''"
definition DOMAIN_LOOKUP_START :: string where "DOMAIN_LOOKUP_START = ''domainLookupStart''"
definition DOMAIN_LOOKUP_END :: string where "DOMAIN_LOOKUP_END = ''domainLookupEnd''"
definition CONNECT_START :: string where "CONNECT_START = ''connectStart''"
definition SECURE_CONNECTION_START :: string where
  "SECURE_CONNECTION_START = ''secureConnectionStart''"
definition CONNECT_END :: string where "CONNECT_END = ''connectEnd''"
definition REQUEST_START :: string where "REQUEST_START = ''requestStart''"
definition RESPONSE_START :: string where "RESPONSE_START = ''responseStart''"
definition RESPONSE_END :: string where "RESPONSE_END = ''responseEnd''"
definition ENCODED_BODY_SIZE :: string where "ENCODED_BODY_SIZE = ''encodedBodySize''"
definition DECODED_BODY_SIZE :: string where "DECODED_BODY_SIZE = ''decodedBodySize''"

text \<open>
  Modelled from the spec: the two attribute keys are imported from
  \<^verbatim>\<open>@opentelemetry/semantic-conventions\<close>, which is not among the source files. The spec
  speaks of a response-content-length attribute and a separate uncompressed-content-length
  attribute; the keys are the semantic-convention names of the two.
\<close>

definition SEMATTRS_HTTP_RESPONSE_CONTENT_LENGTH :: string where
  "SEMATTRS_HTTP_RESPONSE_CONTENT_LENGTH = ''http.response_content_length''"

definition SEMATTRS_HTTP_RESPONSE_CONTENT_LENGTH_UNCOMPRESSED :: string where
  "SEMATTRS_HTTP_RESPONSE_CONTENT_LENGTH_UNCOMPRESSED =
     ''http.response_content_length_uncompressed''"

text \<open>
  \<^verbatim>\<open>api.Span\<close> is an interface of the tracing API. A span is modelled by the calls made on
  it so far, oldest first. The span parameter of the source is written \<open>sp\<close> below.
\<close>

datatype call = AddEvent string number | SetAttribute string jsval

type_synonym Span = "call list"

definition addEvent :: "Span \<Rightarrow> string \<Rightarrow> number \<Rightarrow> Span" where
  "addEvent sp nm time = sp @ [AddEvent nm time]"

definition setAttribute :: "Span \<Rightarrow> string \<Rightarrow> jsval \<Rightarrow> Span" where
  "setAttribute sp key v = sp @ [SetAttribute key v]"

text \<open>
  \<^verbatim>\<open>hasKey(entries, k) && typeof entries[k] === 'number'\<close> guards the assignment of
  \<^verbatim>\<open>entries[k]\<close>; \<open>None\<close> is the initial \<^verbatim>\<open>undefined\<close>.
\<close>

definition numberAt :: "PerformanceEntries \<Rightarrow> string \<Rightarrow> number option" where
  "numberAt entries key =
     (if hasKey entries key
      then (case get entries key of Num x \<Rightarrow> Some x | _ \<Rightarrow> None)
      else None)"

text \<open>
  The result is the returned span, \<open>None\<close> for \<^verbatim>\<open>undefined\<close>; no call is made on the span
  when \<^verbatim>\<open>undefined\<close> is returned.
\<close>

definition addSpanNetworkEvent ::
  "Span \<Rightarrow> string \<Rightarrow> PerformanceEntries \<Rightarrow> string option \<Rightarrow> Span option" where
  "addSpanNetworkEvent sp performanceName entries refPerfName =
     (let perfTime = numberAt entries performanceName;
          refName = (case refPerfName of None \<Rightarrow> FETCH_START
                     | Some s \<Rightarrow> if s = [] then FETCH_START else s);
          refTime = numberAt entries refName
      in case perfTime of
           None \<Rightarrow> None
         | Some p \<Rightarrow>
             (case refTime of
                None \<Rightarrow> None
              | Some r \<Rightarrow> if p \<ge> r then Some (addEvent sp performanceName p) else None))"

text \<open>The span after a call of \<^verbatim>\<open>addSpanNetworkEvent\<close> whose result is dropped.\<close>

definition after :: "Span \<Rightarrow> Span option \<Rightarrow> Span" where
  "after sp result = (case result of None \<Rightarrow> sp | Some sp' \<Rightarrow> sp')"

text \<open>The calls that one milestone adds to a span, as a list of none or one.\<close>

definition emitted :: "string \<Rightarrow> PerformanceEntries \<Rightarrow> call list" where
  "emitted performanceName entries =
     after [] (addSpanNetworkEvent [] performanceName entries None)"

definition startsWith :: "string \<Rightarrow> string \<Rightarrow> bool" where
  "startsWith s p = (take (length p) s = p)"

text \<open>
  \<^verbatim>\<open>resource['name'].startsWith('https:')\<close> throws a \<^verbatim>\<open>TypeError\<close> when the property is
  present and is not a string.
\<close>

definition addSpanNetworkEvents :: "Span \<Rightarrow> PerformanceEntries \<Rightarrow> error + Span" where
  "addSpanNetworkEvents span0 resource =
     (let span1 = after span0 (addSpanNetworkEvent span0 FETCH_START resource None);
          span2 = after span1 (addSpanNetworkEvent span1 DOMAIN_LOOKUP_START resource None);
          span3 = after span2 (addSpanNetworkEvent span2 DOMAIN_LOOKUP_END resource None);
          span4 = after span3 (addSpanNetworkEvent span3 CONNECT_START resource None);
          secure =
            (if hasKey resource ''name''
             then (case get resource ''name'' of
                     Str s \<Rightarrow>
                       if startsWith s ''https:''
                       then Inr (after span4
                              (addSpanNetworkEvent span4 SECURE_CONNECTION_START resource None))
                       else Inr span4
                   | _ \<Rightarrow> Inl TypeError)
             else Inr span4)
      in case secure of
           Inl err \<Rightarrow> Inl err
         | Inr span5 \<Rightarrow>
             (let span6 = after span5 (addSpanNetworkEvent span5 CONNECT_END resource None);
                  span7 = after span6 (addSpanNetworkEvent span6 REQUEST_START resource None);
                  span8 = after span7 (addSpanNetworkEvent span7 RESPONSE_START resource None);
                  span9 = after span8 (addSpanNetworkEvent span8 RESPONSE_END resource None);
                  encodedLength = get resource ENCODED_BODY_SIZE;
                  span10 = (if encodedLength \<noteq> Undefined
                            then setAttribute span9 SEMATTRS_HTTP_RESPONSE_CONTENT_LENGTH
                                   encodedLength
                            else span9);
                  decodedLength = get resource DECODED_BODY_SIZE
              in if decodedLength \<noteq> Undefined \<and> encodedLength \<noteq> decodedLength
                 then Inr (setAttribute span10
                             SEMATTRS_HTTP_RESPONSE_CONTENT_LENGTH_UNCOMPRESSED decodedLength)
                 else Inr span10))"

section \<open>The body-length estimator for XHR bodies\<close>

text \<open>
  A \<^verbatim>\<open>Document\<close> is given by what \<^verbatim>\<open>XMLSerializer.serializeToString\<close> returns for it.
\<close>

datatype Document = Document (serializeToString: string)

text \<open>
  The representations of \<^verbatim>\<open>Document | XMLHttpRequestBodyInit\<close>. A \<open>Blob\<close> carries its
  \<^verbatim>\<open>size\<close>, a buffer or a view its \<^verbatim>\<open>byteLength\<close>, \<open>FormData\<close> the string
  \<^verbatim>\<open>new URLSearchParams(body).toString()\<close>, \<open>URLSearchParams\<close> its \<^verbatim>\<open>toString()\<close>.
  \<open>Unrecognized\<close> is any other value, with no \<^verbatim>\<open>byteLength\<close> property.
\<close>

datatype body =
    DocumentBody Document
  | Blob nat
  | ArrayBuffer nat
  | ArrayBufferView nat
  | FormData string
  | URLSearchParams string
  | StringBody string
  | Unrecognized

text \<open>
  The globals read: \<open>Document_defined\<close> is \<^verbatim>\<open>typeof Document !== 'undefined'\<close> and
  \<open>document\<close> is the page's own \<^verbatim>\<open>document\<close>.
\<close>

record globals =
  Document_defined :: bool
  document :: Document

definition instanceof_Document :: "body \<Rightarrow> bool" where
  "instanceof_Document b = (case b of DocumentBody _ \<Rightarrow> True | _ \<Rightarrow> False)"

text \<open>
  The result is the returned number with the messages passed to \<^verbatim>\<open>DIAG_LOGGER.warn\<close>.
\<close>

definition getXHRBodyLength :: "globals \<Rightarrow> body \<Rightarrow> nat \<times> string list" where
  "getXHRBodyLength g b =
     (if Document_defined g \<and> instanceof_Document b
      then (length (serializeToString (document g)), [])
      else (case b of
              Blob sz \<Rightarrow> (sz, [])
            | ArrayBuffer byteLength \<Rightarrow> (byteLength, [])
            | ArrayBufferView byteLength \<Rightarrow> (byteLength, [])
            | FormData s \<Rightarrow> (length s, [])
            | URLSearchParams s \<Rightarrow> (length s, [])
            | StringBody s \<Rightarrow> (length s, [])
            | _ \<Rightarrow> (0, [''unknown body type''])))"

section \<open>Concrete inputs\<close>

text \<open>
  A page at \<^verbatim>\<open>https://a.test\<close> whose \<^verbatim>\<open>URL\<close> constructor knows two absolute URLs, one of the
  page's origin and one of another origin. Milliseconds become \<^verbatim>\<open>[seconds, nanoseconds]\<close>
  and then nanoseconds.
\<close>

definition page :: env where
  "page =
     \<lparr>URL_defined = True,
      new_URL =
        [''https://a.test/x'' \<mapsto> \<lparr>href = ''https://a.test/x'', origin = ''https://a.test''\<rparr>,
         ''https://b.test/x'' \<mapsto> \<lparr>href = ''https://b.test/x'', origin = ''https://b.test''\<rparr>],
      anchor = (\<lambda>s. \<lparr>href = s, origin = []\<rparr>),
      location_origin = Some ''https://a.test'',
      hrTimeToNanoseconds = (\<lambda>(s, n). s * 1000000000 + n),
      timeInputToHrTime =
        (\<lambda>t. (of_int \<lfloor>t / 1000\<rfloor>, (t - 1000 * of_int \<lfloor>t / 1000\<rfloor>) * 1000000))\<rparr>"

definition xhr :: "nat \<Rightarrow> string \<Rightarrow> number \<Rightarrow> number \<Rightarrow> PerformanceResourceTiming" where
  "xhr i url start stop =
     \<lparr>oid = i, name = url, initiatorType = ''xmlhttprequest'', fetchStart = start,
      responseEnd = stop\<rparr>"

definition timing :: PerformanceEntries where
  "timing =
     [''name'' \<mapsto> Str ''https://a.test/x'',
      ''fetchStart'' \<mapsto> Num 10,
      ''domainLookupStart'' \<mapsto> Num 0,
      ''connectStart'' \<mapsto> Num 12,
      ''secureConnectionStart'' \<mapsto> Num 13,
      ''responseEnd'' \<mapsto> Num 40,
      ''encodedBodySize'' \<mapsto> Num 120,
      ''decodedBodySize'' \<mapsto> Num 340]"

section \<open>Properties of the resource matcher\<close>

lemmas matcher_defs =
  getResource_def parseUrl_def toString_def getOrigin_def filterResourcesForSpan_def
  initiatorType_or_default_def toLowerCase_def lower_char_def upper_letters_def
  lower_letters_def has_def sortResources_def findMainRequest_def falsy_def Let_def

lemmas input_defs = page_def xhr_def

subsection \<open>The filter, the sort and the loop\<close>

lemma filterResourcesForSpan_eq:
  "filterResourcesForSpan e spanUrl startTimeHR endTimeHR resources ignoredResources it =
     filter (\<lambda>resource. \<not> has ignoredResources resource)
       (filter (\<lambda>resource.
          toLowerCase (initiatorType resource) = initiatorType_or_default it \<and>
          name resource = spanUrl \<and>
          hrTimeToNanoseconds e startTimeHR
            \<le> hrTimeToNanoseconds e (timeInputToHrTime e (fetchStart resource)) \<and>
          hrTimeToNanoseconds e (timeInputToHrTime e (responseEnd resource))
            \<le> hrTimeToNanoseconds e endTimeHR) resources)"
proof -
  have drop_if: "\<And>Q (xs :: PerformanceResourceTiming list).
      (if length xs > 0 then filter Q xs else xs) = filter Q xs"
    by simp
  show ?thesis
    unfolding filterResourcesForSpan_def Let_def drop_if ..
qed

lemma set_filterResourcesForSpan:
  "set (filterResourcesForSpan e spanUrl startTimeHR endTimeHR resources ignoredResources it) =
     {resource \<in> set resources.
        toLowerCase (initiatorType resource) = initiatorType_or_default it \<and>
        name resource = spanUrl \<and>
        hrTimeToNanoseconds e startTimeHR
          \<le> hrTimeToNanoseconds e (timeInputToHrTime e (fetchStart resource)) \<and>
        hrTimeToNanoseconds e (timeInputToHrTime e (responseEnd resource))
          \<le> hrTimeToNanoseconds e endTimeHR \<and>
        \<not> has ignoredResources resource}"
  unfolding filterResourcesForSpan_eq by auto

lemma findMainRequest_loop_mem:
  "findMainRequest_loop e spanEndTime minTime rest mainReq bestGap = Some m \<Longrightarrow>
     m \<in> set rest \<or> mainReq = Some m"
  by (induction rest arbitrary: mainReq bestGap) (auto simp: Let_def split: if_splits)

lemma findMainRequest_mem:
  "findMainRequest e resources c t = Some m \<Longrightarrow> m \<in> set resources"
  by (auto simp: findMainRequest_def Let_def dest!: findMainRequest_loop_mem
           dest: in_set_dropD split: if_splits)

lemma set_sortResources: "set (sortResources xs) = set xs"
  by (simp add: sortResources_def)

lemma length_sortResources: "length (sortResources xs) = length xs"
  by (simp add: sortResources_def)

lemma findMainRequest_two:
  "findMainRequest e [a, b] c t = Some b"
  by (simp add: findMainRequest_def Let_def)

lemma getResource_cases:
  assumes "getResource e spanUrl startTimeHR endTimeHR resources ignoredResources it = Inr res"
  obtains u where "parseUrl e spanUrl = Inr u"
    and "mainRequest res = None \<or> (\<exists>r \<in> set (filterResourcesForSpan e (toString u) startTimeHR endTimeHR resources ignoredResources it). mainRequest res = Some r)"
    and "corsPreFlightRequest res = None \<or> (\<exists>r \<in> set (filterResourcesForSpan e (toString u) startTimeHR endTimeHR resources ignoredResources it). corsPreFlightRequest res = Some r)"
proof -
  obtain u where u: "parseUrl e spanUrl = Inr u"
    using assms by (auto simp: getResource_def split: sum.splits)
  define fs where "fs = filterResourcesForSpan e (toString u) startTimeHR endTimeHR resources ignoredResources it"
  have res: "(if length fs = 0
              then Inr \<lparr>corsPreFlightRequest = None, mainRequest = None\<rparr>
              else if length fs = 1
              then Inr \<lparr>corsPreFlightRequest = None, mainRequest = Some (fs ! 0)\<rparr>
              else
                (if Some (origin u) \<noteq> getOrigin e \<and> length (sortResources fs) > 1
                    then (case sortResources fs of
                            [] \<Rightarrow> Inl TypeError
                          | cors # _ \<Rightarrow>
                              (case findMainRequest e (sortResources fs) (responseEnd cors) endTimeHR of
                                 None \<Rightarrow> Inl TypeError
                               | Some main \<Rightarrow>
                                   if fetchStart main < responseEnd cors
                                   then Inr \<lparr>corsPreFlightRequest = None, mainRequest = Some cors\<rparr>
                                   else Inr \<lparr>corsPreFlightRequest = Some cors,
                                              mainRequest = Some main\<rparr>))
                    else Inr \<lparr>corsPreFlightRequest = None,
                               mainRequest = Some (fs ! 0)\<rparr>)) = Inr res"
    using assms unfolding getResource_def u sum.case Let_def fs_def .
  have hd_in: "length fs \<noteq> 0 \<Longrightarrow> fs ! 0 \<in> set fs" by (cases fs) auto
  have sorted_hd: "\<And>c cs. sortResources fs = c # cs \<Longrightarrow> c \<in> set fs"
    by (metis list.set_intros(1) set_sortResources)
  have fm: "\<And>c t m. findMainRequest e (sortResources fs) c t = Some m \<Longrightarrow> m \<in> set fs"
    using findMainRequest_mem set_sortResources by blast
  have "(mainRequest res = None \<or> (\<exists>r \<in> set fs. mainRequest res = Some r)) \<and>
        (corsPreFlightRequest res = None \<or> (\<exists>r \<in> set fs. corsPreFlightRequest res = Some r))"
  proof (cases "length fs = 0")
    case True
    then show ?thesis using res by auto
  next
    case nz: False
    then have h0: "fs ! 0 \<in> set fs" using hd_in by simp
    show ?thesis
    proof (cases "length fs = 1")
      case True
      then have "res = \<lparr>corsPreFlightRequest = None, mainRequest = Some (fs ! 0)\<rparr>"
        using res by auto
      then show ?thesis using h0 by simp
    next
      case False
      show ?thesis
      proof (cases "Some (origin u) \<noteq> getOrigin e \<and> length (sortResources fs) > 1")
        case False
        then have "res = \<lparr>corsPreFlightRequest = None, mainRequest = Some (fs ! 0)\<rparr>"
          using res nz \<open>length fs \<noteq> 1\<close> by auto
        then show ?thesis using h0 by simp
      next
        case True
        then obtain c cs where s: "sortResources fs = c # cs" by (cases "sortResources fs") auto
        then obtain m where m: "findMainRequest e (sortResources fs) (responseEnd c) endTimeHR = Some m"
          using res nz \<open>length fs \<noteq> 1\<close> True by (auto simp: Let_def split: option.splits)
        have "c \<in> set fs" "m \<in> set fs" using s m sorted_hd fm by auto
        then show ?thesis using res nz \<open>length fs \<noteq> 1\<close> True s m
          by (auto simp: Let_def split: if_splits)
      qed
    qed
  qed
  then show ?thesis using that u unfolding fs_def by blast
qed


lemma sortResources_two:
  "sortResources [a, b] = (if fetchStart a \<le> fetchStart b then [a, b] else [b, a])"
  by (simp add: sortResources_def)

lemma getResource_cross_origin_two:
  assumes u: "parseUrl e spanUrl = Inr u"
    and co: "Some (origin u) \<noteq> getOrigin e"
    and so: "sortResources (filterResourcesForSpan e (toString u) startTimeHR endTimeHR resources
               ignoredResources it) = [earlier, later]"
  shows "getResource e spanUrl startTimeHR endTimeHR resources ignoredResources it =
           (if fetchStart later < responseEnd earlier
            then Inr \<lparr>corsPreFlightRequest = None, mainRequest = Some earlier\<rparr>
            else Inr \<lparr>corsPreFlightRequest = Some earlier, mainRequest = Some later\<rparr>)"
proof -
  define fs where "fs = filterResourcesForSpan e (toString u) startTimeHR endTimeHR resources
               ignoredResources it"
  have len: "length fs = 2"
    using so length_sortResources[of fs] by (simp add: fs_def)
  have s: "sortResources fs = [earlier, later]" using so by (simp add: fs_def)
  show ?thesis
    unfolding getResource_def u sum.case Let_def fs_def[symmetric]
    using len co by (simp add: s findMainRequest_two)
qed

subsection \<open>Two candidates of another origin\<close>

lemma parseUrl_page_b:
  "parseUrl page ''https://b.test/x'' =
     Inr \<lparr>href = ''https://b.test/x'', origin = ''https://b.test''\<rparr>"
  by (simp add: parseUrl_def page_def)

lemma cross_origin_page_b:
  "Some (origin \<lparr>href = ''https://b.test/x'', origin = ''https://b.test''\<rparr>) \<noteq> getOrigin page"
  by (simp add: getOrigin_def page_def)

text \<open>
  Claim C2. When the span URL's origin is not the page's origin and exactly two candidates
  pass the filter, \<open>earlier\<close> being the first and \<open>later\<close> the second after the sort by
  fetch-start, and \<open>later\<close> starts its fetch at or after the response end of \<open>earlier\<close>, then
  \<open>getResource\<close> returns \<open>earlier\<close> as \<open>corsPreFlightRequest\<close> and \<open>later\<close> as \<open>mainRequest\<close>.
\<close>

theorem getResource_two_sequential:
  assumes "parseUrl e spanUrl = Inr u"
    and "Some (origin u) \<noteq> getOrigin e"
    and "sortResources (filterResourcesForSpan e (toString u) startTimeHR endTimeHR resources
           ignoredResources it) = [earlier, later]"
    and "fetchStart later \<ge> responseEnd earlier"
  shows "getResource e spanUrl startTimeHR endTimeHR resources ignoredResources it =
           Inr \<lparr>corsPreFlightRequest = Some earlier, mainRequest = Some later\<rparr>"
  using getResource_cross_origin_two[OF assms(1-3)] assms(4) by simp

theorem getResource_two_sequential_witness:
  "getResource page ''https://b.test/x'' (0, 0) (0, 100000000)
     [xhr 2 ''https://b.test/x'' 20 40, xhr 1 ''https://b.test/x'' 5 10] {} None =
   Inr \<lparr>corsPreFlightRequest = Some (xhr 1 ''https://b.test/x'' 5 10),
        mainRequest = Some (xhr 2 ''https://b.test/x'' 20 40)\<rparr>"
proof -
  have sorted: "sortResources (filterResourcesForSpan page
             (toString \<lparr>href = ''https://b.test/x'', origin = ''https://b.test''\<rparr>)
             (0, 0) (0, 100000000)
             [xhr 2 ''https://b.test/x'' 20 40, xhr 1 ''https://b.test/x'' 5 10] {} None) =
           [xhr 1 ''https://b.test/x'' 5 10, xhr 2 ''https://b.test/x'' 20 40]"
    by (simp add: matcher_defs input_defs)
  have sequential: "fetchStart (xhr 2 ''https://b.test/x'' 20 40)
                      \<ge> responseEnd (xhr 1 ''https://b.test/x'' 5 10)"
    by (simp add: xhr_def)
  show ?thesis
    by (rule getResource_two_sequential
          [OF parseUrl_page_b cross_origin_page_b sorted sequential])
qed

text \<open>
  Claim C4. The span URL's origin is not the page's origin and exactly two candidates \<open>a\<close>,
  \<open>b\<close> pass the filter, in this order. \<open>earlier\<close> is the one with the smaller fetch-start
  (\<open>a\<close> when the two are equal) and \<open>later\<close> the other one. \<open>findMainRequest\<close> selects
  \<open>later\<close>; if \<open>later\<close> starts its fetch before the response end of \<open>earlier\<close> (the two
  overlap), \<open>getResource\<close> returns \<open>earlier\<close> as \<open>mainRequest\<close> and no
  \<open>corsPreFlightRequest\<close>.
\<close>

theorem getResource_two_overlapping:
  assumes "parseUrl e spanUrl = Inr u"
    and "Some (origin u) \<noteq> getOrigin e"
    and "filterResourcesForSpan e (toString u) startTimeHR endTimeHR resources
           ignoredResources it = [a, b]"
    and "earlier = (if fetchStart a \<le> fetchStart b then a else b)"
    and "later = (if fetchStart a \<le> fetchStart b then b else a)"
    and "fetchStart later < responseEnd earlier"
  shows "fetchStart earlier \<le> fetchStart later \<and>
         findMainRequest e (sortResources [a, b]) (responseEnd earlier) endTimeHR = Some later \<and>
         getResource e spanUrl startTimeHR endTimeHR resources ignoredResources it =
           Inr \<lparr>corsPreFlightRequest = None, mainRequest = Some earlier\<rparr>"
proof -
  have sorted: "sortResources (filterResourcesForSpan e (toString u) startTimeHR endTimeHR
                  resources ignoredResources it) = [earlier, later]"
    unfolding assms(3) sortResources_two using assms(4,5) by simp
  have order: "fetchStart earlier \<le> fetchStart later"
    using assms(4,5) by (simp split: if_splits)
  have selected: "findMainRequest e (sortResources [a, b]) (responseEnd earlier) endTimeHR =
                    Some later"
    using sorted unfolding assms(3) by (simp add: findMainRequest_two)
  have "getResource e spanUrl startTimeHR endTimeHR resources ignoredResources it =
          Inr \<lparr>corsPreFlightRequest = None, mainRequest = Some earlier\<rparr>"
    using getResource_cross_origin_two[OF assms(1,2) sorted] assms(6) by simp
  then show ?thesis using order selected by simp
qed

theorem getResource_two_overlapping_witness:
  "fetchStart (xhr 1 ''https://b.test/x'' 5 30) \<le> fetchStart (xhr 2 ''https://b.test/x'' 20 40) \<and>
   findMainRequest page
     (sortResources [xhr 2 ''https://b.test/x'' 20 40, xhr 1 ''https://b.test/x'' 5 30])
     (responseEnd (xhr 1 ''https://b.test/x'' 5 30)) (0, 100000000) =
     Some (xhr 2 ''https://b.test/x'' 20 40) \<and>
   getResource page ''https://b.test/x'' (0, 0) (0, 100000000)
     [xhr 2 ''https://b.test/x'' 20 40, xhr 1 ''https://b.test/x'' 5 30] {} None =
   Inr \<lparr>corsPreFlightRequest = None, mainRequest = Some (xhr 1 ''https://b.test/x'' 5 30)\<rparr>"
proof -
  have filtered: "filterResourcesForSpan page
             (toString \<lparr>href = ''https://b.test/x'', origin = ''https://b.test''\<rparr>)
             (0, 0) (0, 100000000)
             [xhr 2 ''https://b.test/x'' 20 40, xhr 1 ''https://b.test/x'' 5 30] {} None =
           [xhr 2 ''https://b.test/x'' 20 40, xhr 1 ''https://b.test/x'' 5 30]"
    by (simp add: matcher_defs input_defs)
  have earlier: "xhr 1 ''https://b.test/x'' 5 30 =
      (if fetchStart (xhr 2 ''https://b.test/x'' 20 40) \<le> fetchStart (xhr 1 ''https://b.test/x'' 5 30)
       then xhr 2 ''https://b.test/x'' 20 40 else xhr 1 ''https://b.test/x'' 5 30)"
    by (simp add: xhr_def)
  have later: "xhr 2 ''https://b.test/x'' 20 40 =
      (if fetchStart (xhr 2 ''https://b.test/x'' 20 40) \<le> fetchStart (xhr 1 ''https://b.test/x'' 5 30)
       then xhr 1 ''https://b.test/x'' 5 30 else xhr 2 ''https://b.test/x'' 20 40)"
    by (simp add: xhr_def)
  have overlap: "fetchStart (xhr 2 ''https://b.test/x'' 20 40)
                      < responseEnd (xhr 1 ''https://b.test/x'' 5 30)"
    by (simp add: xhr_def)
  show ?thesis
    by (rule getResource_two_overlapping
          [OF parseUrl_page_b cross_origin_page_b filtered earlier later overlap])
qed

subsection \<open>Ignored resources\<close>

text \<open>
  Claim C6. A resource that the set \<open>ignoredResources\<close> holds when \<open>getResource\<close> is
  called is returned neither as \<open>mainRequest\<close> nor as \<open>corsPreFlightRequest\<close>.
\<close>

theorem getResource_never_ignored:
  assumes "has ignoredResources x"
    and "getResource e spanUrl startTimeHR endTimeHR resources ignoredResources it = Inr res"
  shows "mainRequest res \<noteq> Some x \<and> corsPreFlightRequest res \<noteq> Some x"
proof -
  from assms(2) obtain u where
    m: "mainRequest res = None \<or> (\<exists>r \<in> set (filterResourcesForSpan e (toString u) startTimeHR
          endTimeHR resources ignoredResources it). mainRequest res = Some r)" and
    c: "corsPreFlightRequest res = None \<or> (\<exists>r \<in> set (filterResourcesForSpan e (toString u)
          startTimeHR endTimeHR resources ignoredResources it). corsPreFlightRequest res = Some r)"
    by (rule getResource_cases)
  have "x \<notin> set (filterResourcesForSpan e (toString u) startTimeHR endTimeHR resources
          ignoredResources it)"
    using assms(1) by (simp add: set_filterResourcesForSpan)
  then show ?thesis using m c by auto
qed

theorem getResource_never_ignored_witness:
  "has {1} (xhr 1 ''https://b.test/x'' 5 10) \<and>
   getResource page ''https://b.test/x'' (0, 0) (0, 100000000)
     [xhr 1 ''https://b.test/x'' 5 10, xhr 2 ''https://b.test/x'' 20 40,
      xhr 3 ''https://b.test/x'' 50 60] {1} None =
     Inr \<lparr>corsPreFlightRequest = Some (xhr 2 ''https://b.test/x'' 20 40),
          mainRequest = Some (xhr 3 ''https://b.test/x'' 50 60)\<rparr> \<and>
   mainRequest \<lparr>corsPreFlightRequest = Some (xhr 2 ''https://b.test/x'' 20 40),
          mainRequest = Some (xhr 3 ''https://b.test/x'' 50 60)\<rparr>
     \<noteq> Some (xhr 1 ''https://b.test/x'' 5 10) \<and>
   corsPreFlightRequest \<lparr>corsPreFlightRequest = Some (xhr 2 ''https://b.test/x'' 20 40),
          mainRequest = Some (xhr 3 ''https://b.test/x'' 50 60)\<rparr>
     \<noteq> Some (xhr 1 ''https://b.test/x'' 5 10)"
proof -
  have ign: "has {1} (xhr 1 ''https://b.test/x'' 5 10)"
    by (simp add: has_def xhr_def)
  have run: "getResource page ''https://b.test/x'' (0, 0) (0, 100000000)
     [xhr 1 ''https://b.test/x'' 5 10, xhr 2 ''https://b.test/x'' 20 40,
      xhr 3 ''https://b.test/x'' 50 60] {1} None =
     Inr \<lparr>corsPreFlightRequest = Some (xhr 2 ''https://b.test/x'' 20 40),
          mainRequest = Some (xhr 3 ''https://b.test/x'' 50 60)\<rparr>"
    by (simp add: matcher_defs input_defs)
  show ?thesis using ign run getResource_never_ignored[OF ign run] by simp
qed

subsection \<open>The candidate filter\<close>

text \<open>
  Claim C5. A resource is among the filtered candidates exactly when it is one of the given
  resources, its lower-cased initiator type is the requested one (\<^verbatim>\<open>xmlhttprequest\<close> when none
  is given), its name is the span URL, its fetch-start is at or after the span's start and its
  response-end at or before the span's end (all four in nanoseconds), and it is not ignored.
\<close>

theorem filterResourcesForSpan_member:
  "resource \<in> set (filterResourcesForSpan e spanUrl startTimeHR endTimeHR resources
                     ignoredResources it) \<longleftrightarrow>
     resource \<in> set resources \<and>
     toLowerCase (initiatorType resource) =
       (case it of None \<Rightarrow> ''xmlhttprequest''
        | Some s \<Rightarrow> if s = [] then ''xmlhttprequest'' else s) \<and>
     name resource = spanUrl \<and>
     hrTimeToNanoseconds e (timeInputToHrTime e (fetchStart resource))
       \<ge> hrTimeToNanoseconds e startTimeHR \<and>
     hrTimeToNanoseconds e (timeInputToHrTime e (responseEnd resource))
       \<le> hrTimeToNanoseconds e endTimeHR \<and>
     \<not> has ignoredResources resource"
  by (simp add: set_filterResourcesForSpan initiatorType_or_default_def)

theorem filterResourcesForSpan_member_witness:
  "xhr 2 ''https://a.test/x'' 20 40 \<in> set (filterResourcesForSpan page ''https://a.test/x''
      (0, 10000000) (0, 50000000)
      [xhr 1 ''https://a.test/x'' 5 20, xhr 2 ''https://a.test/x'' 20 40,
       xhr 3 ''https://a.test/y'' 20 40, xhr 4 ''https://a.test/x'' 30 60,
       xhr 5 ''https://a.test/x'' 25 35] {5} None) \<and>
   xhr 1 ''https://a.test/x'' 5 20 \<notin> set (filterResourcesForSpan page ''https://a.test/x''
      (0, 10000000) (0, 50000000)
      [xhr 1 ''https://a.test/x'' 5 20, xhr 2 ''https://a.test/x'' 20 40,
       xhr 3 ''https://a.test/y'' 20 40, xhr 4 ''https://a.test/x'' 30 60,
       xhr 5 ''https://a.test/x'' 25 35] {5} None)"
  unfolding filterResourcesForSpan_member [of _ page]
  by (simp add: input_defs has_def toLowerCase_def lower_char_def upper_letters_def
        lower_letters_def)

lemma lower_letters_not_upper: "l \<in> set lower_letters \<Longrightarrow> l \<notin> set upper_letters"
  by (auto simp: upper_letters_def lower_letters_def)

lemma lower_char_of_char:
  "c \<in> set upper_letters \<Longrightarrow> (of_char (lower_char c) :: nat) = of_char c + 32"
  by (auto simp: upper_letters_def lower_letters_def lower_char_def)

lemma lower_char_changes_iff: "lower_char c \<noteq> c \<longleftrightarrow> c \<in> set upper_letters"
proof (cases "map_of (zip upper_letters lower_letters) c")
  case None
  then have "c \<notin> fst ` set (zip upper_letters lower_letters)"
    by (simp add: map_of_eq_None_iff)
  then have "c \<notin> set upper_letters"
    by (simp add: upper_letters_def lower_letters_def)
  then show ?thesis using None by (simp add: lower_char_def)
next
  case (Some l)
  then have "(c, l) \<in> set (zip upper_letters lower_letters)" by (rule map_of_SomeD)
  then have "l \<in> set lower_letters" and c: "c \<in> set upper_letters"
    by (auto dest: set_zip_rightD set_zip_leftD)
  then have "l \<notin> set upper_letters" by (simp add: lower_letters_not_upper)
  then have "l \<noteq> c" using c by auto
  then show ?thesis using Some c by (simp add: lower_char_def)
qed



lemma toLowerCase_changes_iff:
  "toLowerCase s \<noteq> s \<longleftrightarrow> (\<exists>c \<in> set s. c \<in> set upper_letters)"
  unfolding toLowerCase_def by (induction s) (auto simp: lower_char_changes_iff)

lemma toLowerCase_latin1:
  "toLowerCase (''FETCH'' @ [CHR 0xC9]) = ''fetch'' @ [CHR 0xE9]"
  "toLowerCase [CHR 0xD7, CHR 0xDF, CHR 0xB5, CHR 0xFF] = [CHR 0xD7, CHR 0xDF, CHR 0xB5, CHR 0xFF]"
  by (simp_all add: toLowerCase_def lower_char_def upper_letters_def lower_letters_def)

lemma filterResourcesForSpan_latin1:
  "filterResourcesForSpan page ''https://a.test/x'' (0, 0) (0, 100000000)
     [\<lparr>oid = 1, name = ''https://a.test/x'', initiatorType = ''FETCH'' @ [CHR 0xC9],
       fetchStart = 20, responseEnd = 40\<rparr>] {} (Some (''fetch'' @ [CHR 0xE9])) =
     [\<lparr>oid = 1, name = ''https://a.test/x'', initiatorType = ''FETCH'' @ [CHR 0xC9],
       fetchStart = 20, responseEnd = 40\<rparr>]"
  by (simp add: matcher_defs input_defs)



subsection \<open>Several candidates of the page's own origin\<close>

lemma getResource_same_origin:
  assumes "parseUrl e spanUrl = Inr u"
    and "Some (origin u) = getOrigin e"
    and "length (filterResourcesForSpan e (toString u) startTimeHR endTimeHR resources
           ignoredResources it) \<ge> 2"
  shows "getResource e spanUrl startTimeHR endTimeHR resources ignoredResources it =
           Inr \<lparr>corsPreFlightRequest = None,
                mainRequest = Some (filterResourcesForSpan e (toString u) startTimeHR endTimeHR
                  resources ignoredResources it ! 0)\<rparr>"
  using assms(2,3) unfolding getResource_def assms(1) sum.case Let_def by auto

text \<open>
  Claim C1, at a concrete input. Two candidates of the page's own origin pass the filter, and
  the list of resources holds the one with the later fetch-start first. \<open>getResource\<close> returns
  no \<open>corsPreFlightRequest\<close>, and as \<open>mainRequest\<close> the first filtered candidate in the order
  of the list, which is not the first after the sort by fetch-start.
\<close>

theorem getResource_same_origin_first_in_buffer:
  "getResource page ''https://a.test/x'' (0, 0) (0, 100000000)
     [xhr 1 ''https://a.test/x'' 20 40, xhr 2 ''https://a.test/x'' 10 30] {} None =
     Inr \<lparr>corsPreFlightRequest = None, mainRequest = Some (xhr 1 ''https://a.test/x'' 20 40)\<rparr> \<and>
   sortResources (filterResourcesForSpan page ''https://a.test/x'' (0, 0) (0, 100000000)
     [xhr 1 ''https://a.test/x'' 20 40, xhr 2 ''https://a.test/x'' 10 30] {} None) =
     [xhr 2 ''https://a.test/x'' 10 30, xhr 1 ''https://a.test/x'' 20 40] \<and>
   fetchStart (xhr 2 ''https://a.test/x'' 10 30) < fetchStart (xhr 1 ''https://a.test/x'' 20 40)"
  by (simp add: matcher_defs input_defs)

subsection \<open>The best gap\<close>

text \<open>
  What the loop does when no candidate has a gap of 0: it returns the first candidate of
  least gap.
\<close>

lemma loop_take:
  "candidate e minTime x \<Longrightarrow> gap e spanEndTime x < g \<Longrightarrow>
     findMainRequest_loop e spanEndTime minTime (x # xs) mainReq (Some g) =
     findMainRequest_loop e spanEndTime minTime xs (Some x) (Some (gap e spanEndTime x))"
  by (simp add: Let_def candidate_def gap_def)

lemma loop_skip:
  "\<not> (candidate e minTime x \<and> gap e spanEndTime x < g) \<Longrightarrow> g \<noteq> 0 \<Longrightarrow>
     findMainRequest_loop e spanEndTime minTime (x # xs) mainReq (Some g) =
     findMainRequest_loop e spanEndTime minTime xs mainReq (Some g)"
  by (auto simp: Let_def candidate_def gap_def falsy_def)

lemma loop_first:
  "candidate e minTime x \<Longrightarrow>
     findMainRequest_loop e spanEndTime minTime (x # xs) mainReq None =
     findMainRequest_loop e spanEndTime minTime xs (Some x) (Some (gap e spanEndTime x))"
  by (simp add: Let_def candidate_def gap_def falsy_def)

lemma loop_not_candidate:
  "\<not> candidate e minTime x \<Longrightarrow>
     findMainRequest_loop e spanEndTime minTime (x # xs) mainReq bestGap =
     findMainRequest_loop e spanEndTime minTime xs mainReq bestGap"
  by (simp add: Let_def candidate_def)

lemma findMainRequest_loop_best:
  assumes "\<forall>r \<in> set rest. candidate e minTime r \<longrightarrow> gap e spanEndTime r \<noteq> 0"
    and "g \<noteq> 0"
  shows "(findMainRequest_loop e spanEndTime minTime rest (Some m0) (Some g) = Some m0 \<and>
            (\<forall>r \<in> set rest. candidate e minTime r \<longrightarrow> g \<le> gap e spanEndTime r)) \<or>
         (\<exists>pre m post. rest = pre @ m # post \<and>
            findMainRequest_loop e spanEndTime minTime rest (Some m0) (Some g) = Some m \<and>
            candidate e minTime m \<and> gap e spanEndTime m < g \<and>
            (\<forall>r \<in> set pre. candidate e minTime r \<longrightarrow> gap e spanEndTime m < gap e spanEndTime r) \<and>
            (\<forall>r \<in> set post. candidate e minTime r \<longrightarrow> gap e spanEndTime m \<le> gap e spanEndTime r))"
  using assms
proof (induction rest arbitrary: m0 g)
  case Nil
  then show ?case by simp
next
  case (Cons x xs)
  have nz': "\<forall>r \<in> set xs. candidate e minTime r \<longrightarrow> gap e spanEndTime r \<noteq> 0"
    using Cons.prems(1) by simp
  show ?case
  proof (cases "candidate e minTime x \<and> gap e spanEndTime x < g")
    case True
    then have gx: "gap e spanEndTime x \<noteq> 0" using Cons.prems(1) by simp
    have step: "findMainRequest_loop e spanEndTime minTime (x # xs) (Some m0) (Some g) =
                findMainRequest_loop e spanEndTime minTime xs (Some x) (Some (gap e spanEndTime x))"
      using True by (intro loop_take) simp_all
    from Cons.IH[OF nz' gx, of x] show ?thesis
    proof
      assume a: "findMainRequest_loop e spanEndTime minTime xs (Some x) (Some (gap e spanEndTime x)) = Some x \<and>
        (\<forall>r \<in> set xs. candidate e minTime r \<longrightarrow> gap e spanEndTime x \<le> gap e spanEndTime r)"
      have "x # xs = [] @ x # xs \<and>
            findMainRequest_loop e spanEndTime minTime (x # xs) (Some m0) (Some g) = Some x \<and>
            candidate e minTime x \<and> gap e spanEndTime x < g \<and>
            (\<forall>r \<in> set []. candidate e minTime r \<longrightarrow> gap e spanEndTime x < gap e spanEndTime r) \<and>
            (\<forall>r \<in> set xs. candidate e minTime r \<longrightarrow> gap e spanEndTime x \<le> gap e spanEndTime r)"
        using a True step by simp
      then show ?thesis by (intro disjI2 exI)
    next
      assume "\<exists>pre m post. xs = pre @ m # post \<and>
            findMainRequest_loop e spanEndTime minTime xs (Some x) (Some (gap e spanEndTime x)) = Some m \<and>
            candidate e minTime m \<and> gap e spanEndTime m < gap e spanEndTime x \<and>
            (\<forall>r \<in> set pre. candidate e minTime r \<longrightarrow> gap e spanEndTime m < gap e spanEndTime r) \<and>
            (\<forall>r \<in> set post. candidate e minTime r \<longrightarrow> gap e spanEndTime m \<le> gap e spanEndTime r)"
      then obtain pre m post where a: "xs = pre @ m # post"
        and b: "findMainRequest_loop e spanEndTime minTime xs (Some x) (Some (gap e spanEndTime x)) = Some m"
        and c: "candidate e minTime m" "gap e spanEndTime m < gap e spanEndTime x"
               "\<forall>r \<in> set pre. candidate e minTime r \<longrightarrow> gap e spanEndTime m < gap e spanEndTime r"
               "\<forall>r \<in> set post. candidate e minTime r \<longrightarrow> gap e spanEndTime m \<le> gap e spanEndTime r"
        by blast
      have "x # xs = (x # pre) @ m # post \<and>
            findMainRequest_loop e spanEndTime minTime (x # xs) (Some m0) (Some g) = Some m \<and>
            candidate e minTime m \<and> gap e spanEndTime m < g \<and>
            (\<forall>r \<in> set (x # pre). candidate e minTime r \<longrightarrow> gap e spanEndTime m < gap e spanEndTime r) \<and>
            (\<forall>r \<in> set post. candidate e minTime r \<longrightarrow> gap e spanEndTime m \<le> gap e spanEndTime r)"
        using a b c True step by simp
      then show ?thesis by (intro disjI2 exI)
    qed
  next
    case False
    have step: "findMainRequest_loop e spanEndTime minTime (x # xs) (Some m0) (Some g) =
                findMainRequest_loop e spanEndTime minTime xs (Some m0) (Some g)"
      using False Cons.prems(2) by (rule loop_skip)
    from Cons.IH[OF nz' Cons.prems(2), of m0] show ?thesis
    proof
      assume a: "findMainRequest_loop e spanEndTime minTime xs (Some m0) (Some g) = Some m0 \<and>
        (\<forall>r \<in> set xs. candidate e minTime r \<longrightarrow> g \<le> gap e spanEndTime r)"
      have "\<forall>r \<in> set (x # xs). candidate e minTime r \<longrightarrow> g \<le> gap e spanEndTime r"
        using a False by auto
      then show ?thesis using a step by simp
    next
      assume "\<exists>pre m post. xs = pre @ m # post \<and>
            findMainRequest_loop e spanEndTime minTime xs (Some m0) (Some g) = Some m \<and>
            candidate e minTime m \<and> gap e spanEndTime m < g \<and>
            (\<forall>r \<in> set pre. candidate e minTime r \<longrightarrow> gap e spanEndTime m < gap e spanEndTime r) \<and>
            (\<forall>r \<in> set post. candidate e minTime r \<longrightarrow> gap e spanEndTime m \<le> gap e spanEndTime r)"
      then obtain pre m post where a: "xs = pre @ m # post"
        and b: "findMainRequest_loop e spanEndTime minTime xs (Some m0) (Some g) = Some m"
        and c: "candidate e minTime m" "gap e spanEndTime m < g"
               "\<forall>r \<in> set pre. candidate e minTime r \<longrightarrow> gap e spanEndTime m < gap e spanEndTime r"
               "\<forall>r \<in> set post. candidate e minTime r \<longrightarrow> gap e spanEndTime m \<le> gap e spanEndTime r"
        by blast
      have "x # xs = (x # pre) @ m # post \<and>
            findMainRequest_loop e spanEndTime minTime (x # xs) (Some m0) (Some g) = Some m \<and>
            candidate e minTime m \<and> gap e spanEndTime m < g \<and>
            (\<forall>r \<in> set (x # pre). candidate e minTime r \<longrightarrow> gap e spanEndTime m < gap e spanEndTime r) \<and>
            (\<forall>r \<in> set post. candidate e minTime r \<longrightarrow> gap e spanEndTime m \<le> gap e spanEndTime r)"
        using a b c False step by auto
      then show ?thesis by (intro disjI2 exI)
    qed
  qed
qed


lemma loop_skip_prefix:
  assumes "\<forall>r \<in> set pre. \<not> candidate e minTime r"
  shows "findMainRequest_loop e spanEndTime minTime (pre @ ys) mainReq bestGap =
         findMainRequest_loop e spanEndTime minTime ys mainReq bestGap"
  using assms by (induction pre) (simp_all add: loop_not_candidate del: findMainRequest_loop.simps)

lemma findMainRequest_best_gap:
  assumes some: "\<exists>r \<in> set rest. candidate e (hrTimeToNanoseconds e (timeInputToHrTime e c)) r"
    and nz: "\<forall>r \<in> set rest. candidate e (hrTimeToNanoseconds e (timeInputToHrTime e c)) r \<longrightarrow>
               gap e (hrTimeToNanoseconds e spanEndTimeHR) r \<noteq> 0"
  shows "\<exists>pre m post. rest = pre @ m # post \<and>
           findMainRequest e (first # rest) c spanEndTimeHR = Some m \<and>
           candidate e (hrTimeToNanoseconds e (timeInputToHrTime e c)) m \<and>
           (\<forall>r \<in> set pre. candidate e (hrTimeToNanoseconds e (timeInputToHrTime e c)) r \<longrightarrow>
              gap e (hrTimeToNanoseconds e spanEndTimeHR) m < gap e (hrTimeToNanoseconds e spanEndTimeHR) r) \<and>
           (\<forall>r \<in> set post. candidate e (hrTimeToNanoseconds e (timeInputToHrTime e c)) r \<longrightarrow>
              gap e (hrTimeToNanoseconds e spanEndTimeHR) m \<le> gap e (hrTimeToNanoseconds e spanEndTimeHR) r)"
proof -
  define minTime where "minTime = hrTimeToNanoseconds e (timeInputToHrTime e c)"
  define spanEndTime where "spanEndTime = hrTimeToNanoseconds e spanEndTimeHR"
  from some have "\<exists>r \<in> set rest. candidate e minTime r"
    unfolding minTime_def .
  from split_list_first_prop[OF this] obtain ys x zs where split: "rest = ys @ x # zs"
    and cx: "candidate e minTime x" and ys: "\<forall>r \<in> set ys. \<not> candidate e minTime r"
    by blast
  have gx: "gap e spanEndTime x \<noteq> 0"
    using nz cx split unfolding minTime_def spanEndTime_def by simp
  have nz': "\<forall>r \<in> set zs. candidate e minTime r \<longrightarrow> gap e spanEndTime r \<noteq> 0"
    using nz split unfolding minTime_def spanEndTime_def by simp
  have "rest \<noteq> []" using split by simp
  then have "findMainRequest e (first # rest) c spanEndTimeHR =
          findMainRequest_loop e spanEndTime minTime rest (Some (rest ! 0)) None"
    by (simp add: findMainRequest_def Let_def minTime_def spanEndTime_def)
  also have "\<dots> = findMainRequest_loop e spanEndTime minTime (x # zs) (Some (rest ! 0)) None"
    unfolding split using ys by (rule loop_skip_prefix)
  also have "\<dots> = findMainRequest_loop e spanEndTime minTime zs (Some x) (Some (gap e spanEndTime x))"
    using cx by (rule loop_first)
  finally have run: "findMainRequest e (first # rest) c spanEndTimeHR =
      findMainRequest_loop e spanEndTime minTime zs (Some x) (Some (gap e spanEndTime x))" .
  from findMainRequest_loop_best[OF nz' gx, of x]
  have "\<exists>pre m post. rest = pre @ m # post \<and>
           findMainRequest e (first # rest) c spanEndTimeHR = Some m \<and>
           candidate e minTime m \<and>
           (\<forall>r \<in> set pre. candidate e minTime r \<longrightarrow> gap e spanEndTime m < gap e spanEndTime r) \<and>
           (\<forall>r \<in> set post. candidate e minTime r \<longrightarrow> gap e spanEndTime m \<le> gap e spanEndTime r)"
  proof
    assume a: "findMainRequest_loop e spanEndTime minTime zs (Some x) (Some (gap e spanEndTime x)) = Some x \<and>
      (\<forall>r \<in> set zs. candidate e minTime r \<longrightarrow> gap e spanEndTime x \<le> gap e spanEndTime r)"
    have "rest = ys @ x # zs \<and>
           findMainRequest e (first # rest) c spanEndTimeHR = Some x \<and>
           candidate e minTime x \<and>
           (\<forall>r \<in> set ys. candidate e minTime r \<longrightarrow> gap e spanEndTime x < gap e spanEndTime r) \<and>
           (\<forall>r \<in> set zs. candidate e minTime r \<longrightarrow> gap e spanEndTime x \<le> gap e spanEndTime r)"
      using a split run cx ys by (simp del: findMainRequest_loop.simps)
    then show ?thesis by (intro exI)
  next
    assume "\<exists>pre m post. zs = pre @ m # post \<and>
            findMainRequest_loop e spanEndTime minTime zs (Some x) (Some (gap e spanEndTime x)) = Some m \<and>
            candidate e minTime m \<and> gap e spanEndTime m < gap e spanEndTime x \<and>
            (\<forall>r \<in> set pre. candidate e minTime r \<longrightarrow> gap e spanEndTime m < gap e spanEndTime r) \<and>
            (\<forall>r \<in> set post. candidate e minTime r \<longrightarrow> gap e spanEndTime m \<le> gap e spanEndTime r)"
    then obtain pre m post where a: "zs = pre @ m # post"
        and b: "findMainRequest_loop e spanEndTime minTime zs (Some x) (Some (gap e spanEndTime x)) = Some m"
        and c: "candidate e minTime m" "gap e spanEndTime m < gap e spanEndTime x"
               "\<forall>r \<in> set pre. candidate e minTime r \<longrightarrow> gap e spanEndTime m < gap e spanEndTime r"
               "\<forall>r \<in> set post. candidate e minTime r \<longrightarrow> gap e spanEndTime m \<le> gap e spanEndTime r"
      by blast
    have "rest = (ys @ x # pre) @ m # post \<and>
           findMainRequest e (first # rest) c spanEndTimeHR = Some m \<and>
           candidate e minTime m \<and>
           (\<forall>r \<in> set (ys @ x # pre). candidate e minTime r \<longrightarrow> gap e spanEndTime m < gap e spanEndTime r) \<and>
           (\<forall>r \<in> set post. candidate e minTime r \<longrightarrow> gap e spanEndTime m \<le> gap e spanEndTime r)"
      using a b c split run ys by (auto simp del: findMainRequest_loop.simps)
    then show ?thesis by (intro exI)
  qed
  then show ?thesis unfolding minTime_def spanEndTime_def .
qed

text \<open>
  Claim C3, at a concrete input. After the earliest candidate come two candidates that both
  start after its response end. The first ends with the span (gap 0), the second 10 ms
  before the span ends. \<open>findMainRequest\<close> selects the second, whose gap is larger: the best
  gap 0 of the first counts as no gap recorded. With a gap of 0 for both, the one encountered
  last is selected.
\<close>

theorem findMainRequest_zero_gap_overwritten:
  "findMainRequest page
     [xhr 0 ''https://b.test/x'' 0 10, xhr 1 ''https://b.test/x'' 20 100,
      xhr 2 ''https://b.test/x'' 30 90] 10 (0, 100000000) =
     Some (xhr 2 ''https://b.test/x'' 30 90) \<and>
   getResource page ''https://b.test/x'' (0, 0) (0, 100000000)
     [xhr 0 ''https://b.test/x'' 0 10, xhr 1 ''https://b.test/x'' 20 100,
      xhr 2 ''https://b.test/x'' 30 90] {} None =
     Inr \<lparr>corsPreFlightRequest = Some (xhr 0 ''https://b.test/x'' 0 10),
          mainRequest = Some (xhr 2 ''https://b.test/x'' 30 90)\<rparr> \<and>
   hrTimeToNanoseconds page (0, 100000000) -
     hrTimeToNanoseconds page (timeInputToHrTime page (responseEnd (xhr 1 ''https://b.test/x'' 20 100))) = 0 \<and>
   hrTimeToNanoseconds page (0, 100000000) -
     hrTimeToNanoseconds page (timeInputToHrTime page (responseEnd (xhr 2 ''https://b.test/x'' 30 90))) = 10000000 \<and>
   findMainRequest page
     [xhr 0 ''https://b.test/x'' 0 10, xhr 1 ''https://b.test/x'' 20 100,
      xhr 2 ''https://b.test/x'' 30 100] 10 (0, 100000000) =
     Some (xhr 2 ''https://b.test/x'' 30 100)"
  by (simp add: matcher_defs input_defs)

section \<open>Properties of the span enricher\<close>

lemmas enricher_defs =
  addSpanNetworkEvents_def addSpanNetworkEvent_def numberAt_def hasKey_def get_def after_def
  addEvent_def setAttribute_def startsWith_def Let_def
  FETCH_START_def DOMAIN_LOOKUP_START_def DOMAIN_LOOKUP_END_def CONNECT_START_def
  SECURE_CONNECTION_START_def CONNECT_END_def REQUEST_START_def RESPONSE_START_def
  RESPONSE_END_def ENCODED_BODY_SIZE_def DECODED_BODY_SIZE_def
  SEMATTRS_HTTP_RESPONSE_CONTENT_LENGTH_def SEMATTRS_HTTP_RESPONSE_CONTENT_LENGTH_UNCOMPRESSED_def

lemma numberAt_Some: "numberAt entries key = Some x \<longleftrightarrow> entries key = Some (Num x)"
  by (auto simp: numberAt_def hasKey_def get_def split: option.splits jsval.splits)

lemma addSpanNetworkEvent_Some:
  "addSpanNetworkEvent sp performanceName entries refPerfName = Some sp' \<longleftrightarrow>
     (\<exists>p r. entries performanceName = Some (Num p) \<and>
            entries (case refPerfName of None \<Rightarrow> FETCH_START
                     | Some s \<Rightarrow> if s = [] then FETCH_START else s) = Some (Num r) \<and>
            r \<le> p \<and> sp' = sp @ [AddEvent performanceName p])"
  by (auto simp: addSpanNetworkEvent_def Let_def addEvent_def numberAt_Some[symmetric]
           split: option.splits)

lemma after_emitted:
  "after sp (addSpanNetworkEvent sp performanceName entries None) =
     sp @ emitted performanceName entries"
  by (simp add: emitted_def after_def addSpanNetworkEvent_def Let_def addEvent_def
           split: option.splits)

lemma emitted_cases:
  "emitted performanceName entries = [] \<or>
   (\<exists>p r. emitted performanceName entries = [AddEvent performanceName p] \<and>
          entries performanceName = Some (Num p) \<and>
          entries FETCH_START = Some (Num r) \<and> r \<le> p)"
proof (cases "addSpanNetworkEvent [] performanceName entries None")
  case None
  then show ?thesis by (simp add: emitted_def after_def)
next
  case (Some sp')
  then obtain p r where "entries performanceName = Some (Num p)"
    "entries FETCH_START = Some (Num r)" "r \<le> p" "sp' = [AddEvent performanceName p]"
    unfolding addSpanNetworkEvent_Some by auto
  then show ?thesis using Some by (simp add: emitted_def after_def)
qed

lemma emitted_mem:
  assumes "c \<in> set (emitted performanceName entries)"
  shows "\<exists>p r. c = AddEvent performanceName p \<and> entries performanceName = Some (Num p) \<and>
           entries FETCH_START = Some (Num r) \<and> r \<le> p"
  using emitted_cases[of performanceName entries] assms by auto

lemma addSpanNetworkEvents_eq:
  "addSpanNetworkEvents sp resource =
     (if hasKey resource ''name'' \<and> (\<forall>s. get resource ''name'' \<noteq> Str s)
      then Inl TypeError
      else Inr (sp @
        (emitted FETCH_START resource @ emitted DOMAIN_LOOKUP_START resource @
         emitted DOMAIN_LOOKUP_END resource @ emitted CONNECT_START resource @
         (if hasKey resource ''name'' \<and> (\<exists>s. get resource ''name'' = Str s \<and> startsWith s ''https:'')
          then emitted SECURE_CONNECTION_START resource else []) @
         emitted CONNECT_END resource @ emitted REQUEST_START resource @
         emitted RESPONSE_START resource @ emitted RESPONSE_END resource) @
        (if get resource ENCODED_BODY_SIZE \<noteq> Undefined
         then [SetAttribute SEMATTRS_HTTP_RESPONSE_CONTENT_LENGTH (get resource ENCODED_BODY_SIZE)]
         else []) @
        (if get resource DECODED_BODY_SIZE \<noteq> Undefined \<and>
            get resource ENCODED_BODY_SIZE \<noteq> get resource DECODED_BODY_SIZE
         then [SetAttribute SEMATTRS_HTTP_RESPONSE_CONTENT_LENGTH_UNCOMPRESSED
                 (get resource DECODED_BODY_SIZE)]
         else [])))"
  by (simp add: addSpanNetworkEvents_def Let_def after_emitted setAttribute_def
           split: jsval.splits)


lemma addSpanNetworkEvents_new_calls:
  assumes "addSpanNetworkEvents sp resource = Inr sp'"
  shows "\<exists>evs. (\<forall>c \<in> set evs. \<exists>pn. c \<in> set (emitted pn resource)) \<and>
           drop (length sp) sp' = evs @
             (if get resource ENCODED_BODY_SIZE \<noteq> Undefined
              then [SetAttribute SEMATTRS_HTTP_RESPONSE_CONTENT_LENGTH
                      (get resource ENCODED_BODY_SIZE)]
              else []) @
             (if get resource DECODED_BODY_SIZE \<noteq> Undefined \<and>
                 get resource ENCODED_BODY_SIZE \<noteq> get resource DECODED_BODY_SIZE
              then [SetAttribute SEMATTRS_HTTP_RESPONSE_CONTENT_LENGTH_UNCOMPRESSED
                      (get resource DECODED_BODY_SIZE)]
              else [])"
proof -
  define evs where "evs =
     emitted FETCH_START resource @ emitted DOMAIN_LOOKUP_START resource @
     emitted DOMAIN_LOOKUP_END resource @ emitted CONNECT_START resource @
     (if hasKey resource ''name'' \<and> (\<exists>s. get resource ''name'' = Str s \<and> startsWith s ''https:'')
      then emitted SECURE_CONNECTION_START resource else []) @
     emitted CONNECT_END resource @ emitted REQUEST_START resource @
     emitted RESPONSE_START resource @ emitted RESPONSE_END resource"
  define attrs where "attrs =
             (if get resource ENCODED_BODY_SIZE \<noteq> Undefined
              then [SetAttribute SEMATTRS_HTTP_RESPONSE_CONTENT_LENGTH
                      (get resource ENCODED_BODY_SIZE)]
              else []) @
             (if get resource DECODED_BODY_SIZE \<noteq> Undefined \<and>
                 get resource ENCODED_BODY_SIZE \<noteq> get resource DECODED_BODY_SIZE
              then [SetAttribute SEMATTRS_HTTP_RESPONSE_CONTENT_LENGTH_UNCOMPRESSED
                      (get resource DECODED_BODY_SIZE)]
              else [])"
  have mem: "\<forall>c \<in> set evs. \<exists>pn. c \<in> set (emitted pn resource)"
    unfolding evs_def by (auto split: if_splits)
  have "addSpanNetworkEvents sp resource =
          (if hasKey resource ''name'' \<and> (\<forall>s. get resource ''name'' \<noteq> Str s)
           then Inl TypeError else Inr (sp @ evs @ attrs))"
    unfolding evs_def attrs_def by (rule addSpanNetworkEvents_eq)
  then have "sp' = sp @ evs @ attrs"
    using assms
    by (cases "hasKey resource ''name'' \<and> (\<forall>s. get resource ''name'' \<noteq> Str s)") simp_all
  then have "drop (length sp) sp' = evs @ attrs" by simp
  then show ?thesis using mem unfolding attrs_def by blast
qed

lemma content_length_keys_distinct:
  "SEMATTRS_HTTP_RESPONSE_CONTENT_LENGTH \<noteq> SEMATTRS_HTTP_RESPONSE_CONTENT_LENGTH_UNCOMPRESSED"
  by (simp add: SEMATTRS_HTTP_RESPONSE_CONTENT_LENGTH_def
        SEMATTRS_HTTP_RESPONSE_CONTENT_LENGTH_UNCOMPRESSED_def)

lemma addSpanNetworkEvents_timing:
  "addSpanNetworkEvents [] timing =
     Inr [AddEvent ''fetchStart'' 10, AddEvent ''connectStart'' 12,
          AddEvent ''secureConnectionStart'' 13, AddEvent ''responseEnd'' 40,
          SetAttribute ''http.response_content_length'' (Num 120),
          SetAttribute ''http.response_content_length_uncompressed'' (Num 340)]"
  by (simp add: enricher_defs timing_def)

lemma addSpanNetworkEvents_timing_same_size:
  "addSpanNetworkEvents [] (timing(''decodedBodySize'' \<mapsto> Num 120)) =
     Inr [AddEvent ''fetchStart'' 10, AddEvent ''connectStart'' 12,
          AddEvent ''secureConnectionStart'' 13, AddEvent ''responseEnd'' 40,
          SetAttribute ''http.response_content_length'' (Num 120)]"
  by (simp add: enricher_defs timing_def)


text \<open>
  Claim C7. \<open>addSpanNetworkEvent\<close> returns the span, with one event added, exactly when the
  milestone's field is present and a number, the reference field (fetch-start when none is
  named) is present and a number, and the milestone's time is at or after the reference time;
  the event carries the milestone's name and time. So every event that
  \<open>addSpanNetworkEvents\<close> adds carries a time that is at or after the entry's fetch-start.
\<close>

theorem addSpanNetworkEvent_guard:
  "(addSpanNetworkEvent sp performanceName entries refPerfName = Some sp' \<longleftrightarrow>
      (\<exists>p r. entries performanceName = Some (Num p) \<and>
             entries (case refPerfName of None \<Rightarrow> FETCH_START
                      | Some s \<Rightarrow> if s = [] then FETCH_START else s) = Some (Num r) \<and>
             r \<le> p \<and> sp' = sp @ [AddEvent performanceName p])) \<and>
   (addSpanNetworkEvents sp0 resource = Inr sp1 \<longrightarrow>
      (\<forall>nm t. AddEvent nm t \<in> set (drop (length sp0) sp1) \<longrightarrow>
         (\<exists>r. resource nm = Some (Num t) \<and> resource FETCH_START = Some (Num r) \<and> r \<le> t)))"
proof (intro conjI impI allI)
  show "addSpanNetworkEvent sp performanceName entries refPerfName = Some sp' \<longleftrightarrow>
      (\<exists>p r. entries performanceName = Some (Num p) \<and>
             entries (case refPerfName of None \<Rightarrow> FETCH_START
                      | Some s \<Rightarrow> if s = [] then FETCH_START else s) = Some (Num r) \<and>
             r \<le> p \<and> sp' = sp @ [AddEvent performanceName p])"
    by (rule addSpanNetworkEvent_Some)
next
  fix nm t
  assume run: "addSpanNetworkEvents sp0 resource = Inr sp1"
    and ev: "AddEvent nm t \<in> set (drop (length sp0) sp1)"
  from addSpanNetworkEvents_new_calls[OF run] obtain evs where
    evs: "\<forall>c \<in> set evs. \<exists>pn. c \<in> set (emitted pn resource)" and
    new: "drop (length sp0) sp1 = evs @
             (if get resource ENCODED_BODY_SIZE \<noteq> Undefined
              then [SetAttribute SEMATTRS_HTTP_RESPONSE_CONTENT_LENGTH
                      (get resource ENCODED_BODY_SIZE)]
              else []) @
             (if get resource DECODED_BODY_SIZE \<noteq> Undefined \<and>
                 get resource ENCODED_BODY_SIZE \<noteq> get resource DECODED_BODY_SIZE
              then [SetAttribute SEMATTRS_HTTP_RESPONSE_CONTENT_LENGTH_UNCOMPRESSED
                      (get resource DECODED_BODY_SIZE)]
              else [])"
    by blast
  have "AddEvent nm t \<in> set evs" using ev unfolding new by (auto split: if_splits)
  then obtain pn where "AddEvent nm t \<in> set (emitted pn resource)" using evs by blast
  from emitted_mem[OF this]
  show "\<exists>r. resource nm = Some (Num t) \<and> resource FETCH_START = Some (Num r) \<and> r \<le> t"
    by auto
qed

theorem addSpanNetworkEvent_guard_witness:
  "addSpanNetworkEvent [] ''connectStart'' timing None = Some [AddEvent ''connectStart'' 12] \<and>
   addSpanNetworkEvent [] ''domainLookupStart'' timing None = None \<and>
   addSpanNetworkEvents [] timing =
     Inr [AddEvent ''fetchStart'' 10, AddEvent ''connectStart'' 12,
          AddEvent ''secureConnectionStart'' 13, AddEvent ''responseEnd'' 40,
          SetAttribute ''http.response_content_length'' (Num 120),
          SetAttribute ''http.response_content_length_uncompressed'' (Num 340)] \<and>
   (\<exists>r. timing ''responseEnd'' = Some (Num 40) \<and> timing FETCH_START = Some (Num r) \<and> r \<le> 40)"
proof -
  have emits: "addSpanNetworkEvent [] ''connectStart'' timing None =
                 Some [AddEvent ''connectStart'' 12]"
    unfolding addSpanNetworkEvent_guard [THEN conjunct1]
    by (simp add: timing_def FETCH_START_def)
  have early: "addSpanNetworkEvent [] ''domainLookupStart'' timing None = None"
    by (simp add: enricher_defs timing_def)
  have ev: "AddEvent ''responseEnd'' 40 \<in> set (drop (length ([] :: Span))
     [AddEvent ''fetchStart'' 10, AddEvent ''connectStart'' 12,
          AddEvent ''secureConnectionStart'' 13, AddEvent ''responseEnd'' 40,
          SetAttribute ''http.response_content_length'' (Num 120),
          SetAttribute ''http.response_content_length_uncompressed'' (Num 340)])"
    by simp
  have "\<exists>r. timing ''responseEnd'' = Some (Num 40) \<and> timing FETCH_START = Some (Num r) \<and> r \<le> 40"
    using addSpanNetworkEvent_guard [THEN conjunct2, rule_format, OF addSpanNetworkEvents_timing ev] .
  then show ?thesis using emits early addSpanNetworkEvents_timing by simp
qed

text \<open>
  Claim C8. Among the calls that \<open>addSpanNetworkEvents\<close> makes, the response-content-length
  attribute is set, to the encoded body size, exactly when that size is present; the
  uncompressed-content-length attribute is set, to the decoded body size, exactly when that
  size is present and differs from the encoded body size.
\<close>

theorem addSpanNetworkEvents_content_length:
  assumes "addSpanNetworkEvents sp resource = Inr sp'"
  shows "(SetAttribute SEMATTRS_HTTP_RESPONSE_CONTENT_LENGTH v \<in> set (drop (length sp) sp') \<longleftrightarrow>
            v = get resource ENCODED_BODY_SIZE \<and> v \<noteq> Undefined) \<and>
         (SetAttribute SEMATTRS_HTTP_RESPONSE_CONTENT_LENGTH_UNCOMPRESSED v
            \<in> set (drop (length sp) sp') \<longleftrightarrow>
            v = get resource DECODED_BODY_SIZE \<and> v \<noteq> Undefined \<and>
            get resource ENCODED_BODY_SIZE \<noteq> v)"
proof -
  from addSpanNetworkEvents_new_calls[OF assms] obtain evs where
    evs: "\<forall>c \<in> set evs. \<exists>pn. c \<in> set (emitted pn resource)" and
    new: "drop (length sp) sp' = evs @
             (if get resource ENCODED_BODY_SIZE \<noteq> Undefined
              then [SetAttribute SEMATTRS_HTTP_RESPONSE_CONTENT_LENGTH
                      (get resource ENCODED_BODY_SIZE)]
              else []) @
             (if get resource DECODED_BODY_SIZE \<noteq> Undefined \<and>
                 get resource ENCODED_BODY_SIZE \<noteq> get resource DECODED_BODY_SIZE
              then [SetAttribute SEMATTRS_HTTP_RESPONSE_CONTENT_LENGTH_UNCOMPRESSED
                      (get resource DECODED_BODY_SIZE)]
              else [])"
    by blast
  have no_attr: "\<And>k w. SetAttribute k w \<notin> set evs"
    using evs emitted_mem by blast
  show ?thesis
    unfolding new using no_attr content_length_keys_distinct
    by (auto split: if_splits)
qed

theorem addSpanNetworkEvents_content_length_witness:
  "addSpanNetworkEvents [] timing =
     Inr [AddEvent ''fetchStart'' 10, AddEvent ''connectStart'' 12,
          AddEvent ''secureConnectionStart'' 13, AddEvent ''responseEnd'' 40,
          SetAttribute ''http.response_content_length'' (Num 120),
          SetAttribute ''http.response_content_length_uncompressed'' (Num 340)] \<and>
   get timing ENCODED_BODY_SIZE = Num 120 \<and> get timing DECODED_BODY_SIZE = Num 340 \<and>
   addSpanNetworkEvents [] (timing(''decodedBodySize'' \<mapsto> Num 120)) =
     Inr [AddEvent ''fetchStart'' 10, AddEvent ''connectStart'' 12,
          AddEvent ''secureConnectionStart'' 13, AddEvent ''responseEnd'' 40,
          SetAttribute ''http.response_content_length'' (Num 120)] \<and>
   SetAttribute SEMATTRS_HTTP_RESPONSE_CONTENT_LENGTH_UNCOMPRESSED (Num 120) \<notin> set (drop (length ([] :: Span))
     [AddEvent ''fetchStart'' 10, AddEvent ''connectStart'' 12,
          AddEvent ''secureConnectionStart'' 13, AddEvent ''responseEnd'' 40,
          SetAttribute ''http.response_content_length'' (Num 120)])"
proof -
  have sizes: "get timing ENCODED_BODY_SIZE = Num 120" "get timing DECODED_BODY_SIZE = Num 340"
    using addSpanNetworkEvents_content_length [OF addSpanNetworkEvents_timing, of "Num 120"]
      addSpanNetworkEvents_content_length [OF addSpanNetworkEvents_timing, of "Num 340"]
    by (simp_all add: SEMATTRS_HTTP_RESPONSE_CONTENT_LENGTH_def
          SEMATTRS_HTTP_RESPONSE_CONTENT_LENGTH_UNCOMPRESSED_def)
  have same: "get (timing(''decodedBodySize'' \<mapsto> Num 120)) ENCODED_BODY_SIZE = Num 120"
    by (simp add: get_def timing_def ENCODED_BODY_SIZE_def)
  have absent: "SetAttribute SEMATTRS_HTTP_RESPONSE_CONTENT_LENGTH_UNCOMPRESSED (Num 120) \<notin> set (drop (length ([] :: Span))
     [AddEvent ''fetchStart'' 10, AddEvent ''connectStart'' 12,
          AddEvent ''secureConnectionStart'' 13, AddEvent ''responseEnd'' 40,
          SetAttribute ''http.response_content_length'' (Num 120)])"
    unfolding addSpanNetworkEvents_content_length
      [OF addSpanNetworkEvents_timing_same_size, THEN conjunct2]
    by (simp add: same)
  show ?thesis
    using sizes absent addSpanNetworkEvents_timing addSpanNetworkEvents_timing_same_size
    by simp
qed

section \<open>Properties of the body-length estimator\<close>

lemma getXHRBodyLength_other_bodies:
  "getXHRBodyLength g (Blob n) = (n, [])"
  "getXHRBodyLength g (ArrayBuffer n) = (n, [])"
  "getXHRBodyLength g (ArrayBufferView n) = (n, [])"
  "getXHRBodyLength g (FormData s) = (length s, [])"
  "getXHRBodyLength g (URLSearchParams s) = (length s, [])"
  "getXHRBodyLength g (StringBody s) = (length s, [])"
  "getXHRBodyLength g Unrecognized = (0, [''unknown body type''])"
  "getXHRBodyLength g (DocumentBody d) =
     (if Document_defined g then (length (serializeToString (document g)), [])
      else (0, [''unknown body type'']))"
  by (simp_all add: getXHRBodyLength_def instanceof_Document_def)


text \<open>
  Claim C9, at a concrete input. The body is a \<^verbatim>\<open>Document\<close> that serializes to 4 characters
  and is not the page's own document, which serializes to 13. \<open>getXHRBodyLength\<close> returns 13:
  it serializes the global \<^verbatim>\<open>document\<close>, not the body.
\<close>

theorem getXHRBodyLength_document_global:
  "getXHRBodyLength \<lparr>Document_defined = True, document = Document ''<html></html>''\<rparr>
     (DocumentBody (Document ''<a/>'')) = (13, []) \<and>
   length (serializeToString (Document ''<a/>'')) = 4"
  by (simp add: getXHRBodyLength_def instanceof_Document_def)

end
